theory Spec2Isabelle
  imports Complex_Main
begin

section \<open>Marketing campaign data refresh: the model\<close>

text \<open>
  A shallow embedding of \<^verbatim>\<open>scripts/data_refresh.py\<close> (class
  \<^verbatim>\<open>MarketingDataRefresh\<close>). Conventions of the model:
  \<^item> Python numbers (int and float) are exact rationals. Binary floating point is not
    modelled: there is no NaN, no infinity and no negative zero, and \<^verbatim>\<open>round\<close>
    rounds the exact value, ties to even.
  \<^item> A pandas row is an association list from column labels to cells; a cell is a number
    or a text. Arithmetic or comparison on a text cell raises TypeError, a missing label
    raises KeyError.
  \<^item> A CSV file holds the list of records last written to it (\<open>None\<close>: the file does
    not exist); the text of the serialisation is not modelled.
  \<^item> Everything the outside world decides during one run (the clock, the database, the
    file system, the mail server) is a field of the record \<open>env\<close>.
  \<^item> A write that raises leaves the file as it was.
  \<^item> Logging is not modelled.
\<close>

subsection \<open>Values and errors\<close>

datatype cell = Num rat | Txt string

type_synonym row = "(string \<times> cell) list"

type_synonym timestamp = int

datatype error =
    KeyError string
  | TypeError
  | FileNotFoundError
  | DatabaseError string
  | OSError string
  | SMTPError string

definition bind_err :: "error + 'a \<Rightarrow> ('a \<Rightarrow> error + 'b) \<Rightarrow> error + 'b" where
  "bind_err m f = (case m of Inl e \<Rightarrow> Inl e | Inr x \<Rightarrow> f x)"

text \<open>\<^verbatim>\<open>row['label']\<close>.\<close>

definition getitem :: "row \<Rightarrow> string \<Rightarrow> error + cell" where
  "getitem r k = (case map_of r k of None \<Rightarrow> Inl (KeyError k) | Some v \<Rightarrow> Inr v)"

text \<open>\<^verbatim>\<open>row['label']\<close> used as an operand of a comparison, a subtraction or a division.\<close>

definition num_col :: "row \<Rightarrow> string \<Rightarrow> error + rat" where
  "num_col r k =
     bind_err (getitem r k) (\<lambda>v. case v of Num x \<Rightarrow> Inr x | Txt _ \<Rightarrow> Inl TypeError)"

subsection \<open>Rounding and formatting\<close>

definition round_half_even :: "rat \<Rightarrow> int" where
  "round_half_even q =
     (let f = \<lfloor>q\<rfloor>; d = q - of_int f
      in if d < 1 / 2 then f else if 1 / 2 < d then f + 1 else if even f then f else f + 1)"

text \<open>\<^verbatim>\<open>round(x, n)\<close>.\<close>

definition py_round :: "rat \<Rightarrow> nat \<Rightarrow> rat" where
  "py_round x n = of_int (round_half_even (x * 10 ^ n)) / 10 ^ n"

fun digit :: "nat \<Rightarrow> char" where
  "digit n = char_of (48 + n)"

fun show_nat :: "nat \<Rightarrow> string" where
  "show_nat n = (if n < 10 then [digit n] else show_nat (n div 10) @ [digit (n mod 10)])"

text \<open>The format specification \<^verbatim>\<open>:.2f\<close>.\<close>

definition format_2f :: "rat \<Rightarrow> string" where
  "format_2f x =
     (let n = nat (round_half_even (\<bar>x\<bar> * 100))
      in (if x < 0 then ''-'' else '''') @ show_nat (n div 100) @ ''.''
           @ [digit (n mod 100 div 10), digit (n mod 10)])"

subsection \<open>Records\<close>

record ident =
  campaign_id :: cell
  campaign_name :: cell
  channel :: cell

text \<open>A row of \<^verbatim>\<open>marketing_campaigns\<close> whose numeric columns hold numbers.\<close>

record campaign = ident +
  campaign_type :: cell
  start_date :: cell
  end_date :: cell
  budget_allocated :: rat
  total_spend :: rat
  impressions :: rat
  clicks :: rat
  leads_generated :: rat
  conversions :: rat
  revenue_generated :: rat
  campaign_status :: cell

definition row_of :: "campaign \<Rightarrow> row" where
  "row_of c =
     [(''campaign_id'', campaign_id c),
      (''campaign_name'', campaign_name c),
      (''campaign_type'', campaign_type c),
      (''channel'', channel c),
      (''start_date'', start_date c),
      (''end_date'', end_date c),
      (''budget_allocated'', Num (budget_allocated c)),
      (''total_spend'', Num (total_spend c)),
      (''impressions'', Num (impressions c)),
      (''clicks'', Num (clicks c)),
      (''leads_generated'', Num (leads_generated c)),
      (''conversions'', Num (conversions c)),
      (''revenue_generated'', Num (revenue_generated c)),
      (''status'', campaign_status c)]"

record kpi = ident +
  roi_percentage :: rat
  cost_per_lead :: rat
  cost_per_acquisition :: rat
  conversion_rate :: rat
  click_through_rate :: rat
  total_investment :: cell
  total_revenue :: cell
  net_profit :: rat
  profitability_score :: rat
  last_updated :: timestamp

record alert = ident +
  alert_type :: string
  issue :: string
  current_value :: "string \<times> string"
  recommended_action :: string
  priority :: string

subsection \<open>\<^verbatim>\<open>calculate_kpis\<close>: the loop\<close>

text \<open>
  The body of the loop over \<^verbatim>\<open>campaign_data.iterrows()\<close>, in the order in which the
  source first reads each column. A column read again later yields the same cell, so it
  is bound once.
\<close>

definition kpi_of_row :: "timestamp \<Rightarrow> row \<Rightarrow> error + kpi" where
  "kpi_of_row t r =
     bind_err (num_col r ''total_spend'') (\<lambda>spend.
     bind_err (if 0 < spend
               then bind_err (num_col r ''revenue_generated'')
                      (\<lambda>revenue. Inr ((revenue - spend) / spend * 100))
               else Inr 0) (\<lambda>roi.
     bind_err (num_col r ''leads_generated'') (\<lambda>leads.
     let cpl = (if 0 < leads then spend / leads else 0) in
     bind_err (num_col r ''conversions'') (\<lambda>convs.
     let cpa = (if 0 < convs then spend / convs else 0);
         conv_rate = (if 0 < leads then convs / leads * 100 else 0) in
     bind_err (num_col r ''impressions'') (\<lambda>imps.
     bind_err (if 0 < imps
               then bind_err (num_col r ''clicks'') (\<lambda>cl. Inr (cl / imps * 100))
               else Inr 0) (\<lambda>ctr.
     bind_err (getitem r ''campaign_id'') (\<lambda>cid.
     bind_err (getitem r ''campaign_name'') (\<lambda>cname.
     bind_err (getitem r ''channel'') (\<lambda>chan.
     bind_err (getitem r ''revenue_generated'') (\<lambda>total_rev.
     bind_err (num_col r ''revenue_generated'') (\<lambda>revenue.
     Inr \<lparr>campaign_id = cid,
          campaign_name = cname,
          channel = chan,
          roi_percentage = py_round roi 2,
          cost_per_lead = py_round cpl 2,
          cost_per_acquisition = py_round cpa 2,
          conversion_rate = py_round conv_rate 2,
          click_through_rate = py_round ctr 4,
          total_investment = Num spend,
          total_revenue = total_rev,
          net_profit = revenue - spend,
          profitability_score = min 10 (max 0 (roi / 30)),
          last_updated = t\<rparr>)))))))))))"

fun kpi_loop :: "timestamp \<Rightarrow> row list \<Rightarrow> kpi list \<Rightarrow> error + kpi list" where
  "kpi_loop t [] kpi_data = Inr kpi_data"
| "kpi_loop t (r # rs) kpi_data =
     (case kpi_of_row t r of
        Inl e \<Rightarrow> Inl e
      | Inr k \<Rightarrow> kpi_loop t rs (kpi_data @ [k]))"

subsection \<open>\<^verbatim>\<open>generate_alerts\<close>: the three rules\<close>

definition negative_roi_alert :: "kpi \<Rightarrow> alert" where
  "negative_roi_alert c =
     \<lparr>campaign_id = campaign_id c,
      campaign_name = campaign_name c,
      channel = channel c,
      alert_type = ''Critical'',
      issue = ''Negative ROI'',
      current_value = (''current_roi'', format_2f (roi_percentage c) @ ''%''),
      recommended_action = ''Pause campaign and review targeting'',
      priority = ''High''\<rparr>"

definition high_cpl_alert :: "kpi \<Rightarrow> alert" where
  "high_cpl_alert c =
     \<lparr>campaign_id = campaign_id c,
      campaign_name = campaign_name c,
      channel = channel c,
      alert_type = ''Warning'',
      issue = ''High Cost Per Lead'',
      current_value = (''current_cpl'', ''$'' @ format_2f (cost_per_lead c)),
      recommended_action = ''Optimize targeting or reduce bid'',
      priority = ''Medium''\<rparr>"

definition low_conversion_alert :: "kpi \<Rightarrow> alert" where
  "low_conversion_alert c =
     \<lparr>campaign_id = campaign_id c,
      campaign_name = campaign_name c,
      channel = channel c,
      alert_type = ''Warning'',
      issue = ''Low Conversion Rate'',
      current_value = (''current_conversion'', format_2f (conversion_rate c) @ ''%''),
      recommended_action = ''Review landing page and offer'',
      priority = ''Medium''\<rparr>"

text \<open>\<^verbatim>\<open>for _, campaign in selected.iterrows(): alerts.append(mk(campaign))\<close>.\<close>

fun append_alerts :: "(kpi \<Rightarrow> alert) \<Rightarrow> kpi list \<Rightarrow> alert list \<Rightarrow> alert list" where
  "append_alerts mk [] alerts = alerts"
| "append_alerts mk (c # cs) alerts = append_alerts mk cs (alerts @ [mk c])"

definition collect_alerts :: "kpi list \<Rightarrow> alert list" where
  "collect_alerts kpi_data =
     (let alerts = [];
          negative_roi = filter (\<lambda>k. roi_percentage k < 0) kpi_data;
          alerts = append_alerts negative_roi_alert negative_roi alerts;
          high_cpl = filter (\<lambda>k. 100 < cost_per_lead k) kpi_data;
          alerts = append_alerts high_cpl_alert high_cpl alerts;
          low_conversion = filter (\<lambda>k. conversion_rate k < 5) kpi_data;
          alerts = append_alerts low_conversion_alert low_conversion alerts
      in alerts)"

subsection \<open>The object, the files and the outside world\<close>

datatype detail =
    Records nat
  | Campaigns_processed nat
  | Alerts_count nat
  | Error_detail error

text \<open>One value of the dictionary \<^verbatim>\<open>self.refresh_status\<close>.\<close>

record status_entry =
  status :: string
  timestamp :: timestamp
  detail :: detail

datatype path =
    Processed_dir
  | Campaign_csv
  | Budget_csv
  | Kpi_csv
  | Alerts_csv
  | Logs_dir
  | Status_json int

text \<open>
  What the outside world answers during one run. \<open>now\<close> stands for every reading of
  the clock in the run, in seconds; \<open>create_engine_ok\<close> tells whether the body of
  \<^verbatim>\<open>connect_database\<close> runs without an exception; \<open>fs_write p\<close> is the exception,
  if any, of creating or writing \<open>p\<close>; \<open>smtp_send\<close> is the exception, if any, of
  building and sending the message.
\<close>

record env =
  now :: timestamp
  create_engine_ok :: bool
  campaigns_query :: "error + row list"
  budget_query :: "error + row list"
  fs_write :: "path \<Rightarrow> error option"
  smtp_send :: "error option"

text \<open>
  The object (\<open>engine\<close>: whether \<^verbatim>\<open>self.engine\<close> is set) together with the files
  it writes and the messages it has sent. A message is the list of alerts it renders.
\<close>

record state =
  engine :: bool
  refresh_status :: "string \<rightharpoonup> status_entry"
  campaign_csv :: "row list option"
  budget_csv :: "row list option"
  kpi_csv :: "kpi list option"
  alerts_csv :: "alert list option"
  status_files :: "int \<rightharpoonup> (string \<rightharpoonup> status_entry)"
  sent_mail :: "alert list list"

text \<open>\<^verbatim>\<open>__init__\<close>, on a file system holding the files of \<open>fs\<close>.\<close>

definition init :: "state \<Rightarrow> state" where
  "init fs = fs\<lparr>engine := False, refresh_status := Map.empty\<rparr>"

definition no_files :: state where
  "no_files =
     \<lparr>engine = False, refresh_status = Map.empty, campaign_csv = None, budget_csv = None,
      kpi_csv = None, alerts_csv = None, status_files = Map.empty, sent_mail = []\<rparr>"

text \<open>
  The calendar day of a clock reading, which names the status file
  (\<^verbatim>\<open>strftime('%Y%m%d')\<close>); the time zone is not modelled.
\<close>

definition day :: "timestamp \<Rightarrow> int" where
  "day t = t div 86400"

definition record_success :: "string \<Rightarrow> env \<Rightarrow> detail \<Rightarrow> state \<Rightarrow> state" where
  "record_success key e d s =
     s\<lparr>refresh_status := (refresh_status s)
          (key \<mapsto> \<lparr>status = ''success'', timestamp = now e, detail = d\<rparr>)\<rparr>"

definition record_error :: "string \<Rightarrow> env \<Rightarrow> error \<Rightarrow> state \<Rightarrow> state" where
  "record_error key e err s =
     s\<lparr>refresh_status := (refresh_status s)
          (key \<mapsto> \<lparr>status = ''error'', timestamp = now e, detail = Error_detail err\<rparr>)\<rparr>"

subsection \<open>The stages\<close>

definition connect_database :: "env \<Rightarrow> state \<Rightarrow> bool \<times> state" where
  "connect_database e s =
     (if create_engine_ok e then (True, s\<lparr>engine := True\<rparr>) else (False, s))"

definition refresh_campaign_data :: "env \<Rightarrow> state \<Rightarrow> bool \<times> state" where
  "refresh_campaign_data e s =
     (case connect_database e s of
        (False, s1) \<Rightarrow> (False, s1)
      | (True, s1) \<Rightarrow>
          (case campaigns_query e of
             Inl err \<Rightarrow> (False, record_error ''campaign_data'' e err s1)
           | Inr campaign_data \<Rightarrow>
               (case fs_write e Processed_dir of
                  Some err \<Rightarrow> (False, record_error ''campaign_data'' e err s1)
                | None \<Rightarrow>
                    (case fs_write e Campaign_csv of
                       Some err \<Rightarrow> (False, record_error ''campaign_data'' e err s1)
                     | None \<Rightarrow>
                         (True,
                          record_success ''campaign_data'' e (Records (length campaign_data))
                            (s1\<lparr>campaign_csv := Some campaign_data\<rparr>))))))"

definition refresh_budget_data :: "env \<Rightarrow> state \<Rightarrow> bool \<times> state" where
  "refresh_budget_data e s =
     (case (if engine s then (True, s) else connect_database e s) of
        (False, s1) \<Rightarrow> (False, s1)
      | (True, s1) \<Rightarrow>
          (case budget_query e of
             Inl err \<Rightarrow> (False, record_error ''budget_data'' e err s1)
           | Inr budget_data \<Rightarrow>
               (case fs_write e Budget_csv of
                  Some err \<Rightarrow> (False, record_error ''budget_data'' e err s1)
                | None \<Rightarrow>
                    (True,
                     record_success ''budget_data'' e (Records (length budget_data))
                       (s1\<lparr>budget_csv := Some budget_data\<rparr>)))))"

definition read_csv :: "'a list option \<Rightarrow> error + 'a list" where
  "read_csv f = (case f of None \<Rightarrow> Inl FileNotFoundError | Some xs \<Rightarrow> Inr xs)"

definition calculate_kpis :: "env \<Rightarrow> state \<Rightarrow> bool \<times> state" where
  "calculate_kpis e s =
     (case read_csv (campaign_csv s) of
        Inl err \<Rightarrow> (False, record_error ''kpi_calculation'' e err s)
      | Inr campaign_data \<Rightarrow>
          (case kpi_loop (now e) campaign_data [] of
             Inl err \<Rightarrow> (False, record_error ''kpi_calculation'' e err s)
           | Inr kpi_data \<Rightarrow>
               (case fs_write e Kpi_csv of
                  Some err \<Rightarrow> (False, record_error ''kpi_calculation'' e err s)
                | None \<Rightarrow>
                    (True,
                     record_success ''kpi_calculation'' e (Campaigns_processed (length kpi_data))
                       (s\<lparr>kpi_csv := Some kpi_data\<rparr>)))))"

definition send_alert_email :: "env \<Rightarrow> alert list \<Rightarrow> state \<Rightarrow> bool \<times> state" where
  "send_alert_email e alerts s =
     (if alerts = [] then (True, s)
      else (case smtp_send e of
              Some err \<Rightarrow> (False, s)
            | None \<Rightarrow> (True, s\<lparr>sent_mail := sent_mail s @ [alerts]\<rparr>)))"

definition generate_alerts :: "env \<Rightarrow> state \<Rightarrow> bool \<times> state" where
  "generate_alerts e s =
     (case read_csv (kpi_csv s) of
        Inl err \<Rightarrow> (False, record_error ''alerts'' e err s)
      | Inr kpi_data \<Rightarrow>
          (let alerts = collect_alerts kpi_data in
           if alerts \<noteq> [] then
             (case fs_write e Alerts_csv of
                Some err \<Rightarrow> (False, record_error ''alerts'' e err s)
              | None \<Rightarrow>
                  (let s1 = snd (send_alert_email e alerts (s\<lparr>alerts_csv := Some alerts\<rparr>))
                   in (True, record_success ''alerts'' e (Alerts_count (length alerts)) s1)))
           else (True, record_success ''alerts'' e (Alerts_count (length alerts)) s)))"

definition save_refresh_status :: "env \<Rightarrow> state \<Rightarrow> state" where
  "save_refresh_status e s =
     (case fs_write e Logs_dir of
        Some err \<Rightarrow> s
      | None \<Rightarrow>
          (case fs_write e (Status_json (day (now e))) of
             Some err \<Rightarrow> s
           | None \<Rightarrow> s\<lparr>status_files := (status_files s)(day (now e) \<mapsto> refresh_status s)\<rparr>))"

definition count_if :: "bool \<Rightarrow> nat \<Rightarrow> nat" where
  "count_if ok success_count = (if ok then success_count + 1 else success_count)"

definition full_refresh :: "env \<Rightarrow> state \<Rightarrow> bool \<times> state" where
  "full_refresh e s =
     (let success_count = 0;
          (ok1, s1) = refresh_campaign_data e s;
          success_count = count_if ok1 success_count;
          (ok2, s2) = refresh_budget_data e s1;
          success_count = count_if ok2 success_count;
          (ok3, s3) = calculate_kpis e s2;
          success_count = count_if ok3 success_count;
          (ok4, s4) = generate_alerts e s3;
          success_count = count_if ok4 success_count;
          s5 = save_refresh_status e s4
      in (success_count = 4, s5))"

subsection \<open>Reference formulas and concrete inputs\<close>

text \<open>The return on investment before rounding: the local variable \<^verbatim>\<open>roi\<close>.\<close>

definition roi_formula :: "campaign \<Rightarrow> rat" where
  "roi_formula c =
     (if 0 < total_spend c
      then (revenue_generated c - total_spend c) / total_spend c * 100 else 0)"

text \<open>\<open>is_rounded n x\<close>: \<open>x\<close> has at most \<open>n\<close> decimal places.\<close>

definition is_rounded :: "nat \<Rightarrow> rat \<Rightarrow> bool" where
  "is_rounded n x = (x * 10 ^ n = of_int \<lfloor>x * 10 ^ n\<rfloor>)"

text \<open>
  The profitability score as the specification words it, from the stored field
  \<^verbatim>\<open>roi_percentage\<close>; compared below with the score the source computes.
\<close>

definition spec_profitability_score :: "kpi \<Rightarrow> rat" where
  "spec_profitability_score k = min 10 (max 0 (roi_percentage k / 30))"

definition camp_third :: campaign where
  "camp_third =
     \<lparr>campaign_id = Num 1, campaign_name = Txt ''Spring Sale'', channel = Txt ''Email'',
      campaign_type = Txt ''Promo'', start_date = Txt ''2024-03-01'',
      end_date = Txt ''2024-03-31'', budget_allocated = 5, total_spend = 3,
      impressions = 7, clicks = 3, leads_generated = 7, conversions = 3,
      revenue_generated = 4, campaign_status = Txt ''Active''\<rparr>"

definition camp_zero :: campaign where
  "camp_zero =
     \<lparr>campaign_id = Num 2, campaign_name = Txt ''Draft'', channel = Txt ''Social'',
      campaign_type = Txt ''Brand'', start_date = Txt ''2024-04-01'',
      end_date = Txt ''2024-04-30'', budget_allocated = 0, total_spend = 0,
      impressions = 0, clicks = 0, leads_generated = 0, conversions = 0,
      revenue_generated = 0, campaign_status = Txt ''Planned''\<rparr>"

definition camp_tiny_loss :: campaign where
  "camp_tiny_loss =
     \<lparr>campaign_id = Num 3, campaign_name = Txt ''Search Ads'', channel = Txt ''Search'',
      campaign_type = Txt ''Lead Gen'', start_date = Txt ''2024-05-01'',
      end_date = Txt ''2024-05-31'', budget_allocated = 100000, total_spend = 100000,
      impressions = 10000, clicks = 300, leads_generated = 2000, conversions = 200,
      revenue_generated = 99996, campaign_status = Txt ''Active''\<rparr>"

definition kpi_three_rules :: kpi where
  "kpi_three_rules =
     \<lparr>campaign_id = Num 4, campaign_name = Txt ''Display'', channel = Txt ''Display'',
      roi_percentage = - 10, cost_per_lead = 150, cost_per_acquisition = 5000,
      conversion_rate = 3, click_through_rate = 1, total_investment = Num 15000,
      total_revenue = Num 13500, net_profit = - 1500, profitability_score = 0,
      last_updated = 0\<rparr>"

text \<open>The entry of a stage in the status file of the day of the run.\<close>

definition exported :: "env \<Rightarrow> state \<Rightarrow> string \<Rightarrow> status_entry option" where
  "exported e s key = (case status_files s (day (now e)) of None \<Rightarrow> None | Some m \<Rightarrow> m key)"

text \<open>A row whose \<^verbatim>\<open>total_spend\<close> cell holds text.\<close>

definition bad_row :: row where
  "bad_row =
     [(''campaign_id'', Num 5), (''campaign_name'', Txt ''Imported''),
      (''campaign_type'', Txt ''Promo''), (''channel'', Txt ''Email''),
      (''start_date'', Txt ''2024-05-01''), (''end_date'', Txt ''2024-05-31''),
      (''budget_allocated'', Num 100), (''total_spend'', Txt ''n/a''),
      (''impressions'', Num 10), (''clicks'', Num 1), (''leads_generated'', Num 1),
      (''conversions'', Num 1), (''revenue_generated'', Num 50), (''status'', Txt ''Active'')]"

text \<open>
  Three runs: everything works; the engine cannot be created, one hour later; and the
  campaign table holds a malformed second row.
\<close>

definition env_up :: env where
  "env_up =
     \<lparr>now = 1714550400, create_engine_ok = True,
      campaigns_query = Inr [row_of camp_third],
      budget_query = Inr [],
      fs_write = (\<lambda>p. None), smtp_send = None\<rparr>"

definition env_down :: env where
  "env_down = env_up\<lparr>now := 1714554000, create_engine_ok := False\<rparr>"

definition env_bad_rows :: env where
  "env_bad_rows = env_up\<lparr>campaigns_query := Inr [row_of camp_third, bad_row]\<rparr>"

section \<open>Properties\<close>

subsection \<open>Auxiliary facts\<close>

lemma num_col_row_of:
  "num_col (row_of c) ''total_spend'' = Inr (total_spend c)"
  "num_col (row_of c) ''revenue_generated'' = Inr (revenue_generated c)"
  "num_col (row_of c) ''leads_generated'' = Inr (leads_generated c)"
  "num_col (row_of c) ''conversions'' = Inr (conversions c)"
  "num_col (row_of c) ''impressions'' = Inr (impressions c)"
  "num_col (row_of c) ''clicks'' = Inr (clicks c)"
  by (simp_all add: num_col_def getitem_def bind_err_def row_of_def)

lemma getitem_row_of:
  "getitem (row_of c) ''campaign_id'' = Inr (campaign_id c)"
  "getitem (row_of c) ''campaign_name'' = Inr (campaign_name c)"
  "getitem (row_of c) ''channel'' = Inr (channel c)"
  "getitem (row_of c) ''revenue_generated'' = Inr (Num (revenue_generated c))"
  by (simp_all add: getitem_def row_of_def)

lemma bind_err_Inr: "bind_err (Inr x) f = f x"
  by (simp add: bind_err_def)

lemma bind_err_if:
  "bind_err (if b then Inr x else Inr y) f = f (if b then x else y)"
  by (simp add: bind_err_def)

lemma kpi_of_row_campaign:
  "kpi_of_row t (row_of c) =
     Inr \<lparr>campaign_id = campaign_id c,
          campaign_name = campaign_name c,
          channel = channel c,
          roi_percentage = py_round (roi_formula c) 2,
          cost_per_lead =
            py_round (if 0 < leads_generated c then total_spend c / leads_generated c else 0) 2,
          cost_per_acquisition =
            py_round (if 0 < conversions c then total_spend c / conversions c else 0) 2,
          conversion_rate =
            py_round (if 0 < leads_generated c
                      then conversions c / leads_generated c * 100 else 0) 2,
          click_through_rate =
            py_round (if 0 < impressions c then clicks c / impressions c * 100 else 0) 4,
          total_investment = Num (total_spend c),
          total_revenue = Num (revenue_generated c),
          net_profit = revenue_generated c - total_spend c,
          profitability_score = min 10 (max 0 (roi_formula c / 30)),
          last_updated = t\<rparr>"
  unfolding kpi_of_row_def num_col_row_of getitem_row_of bind_err_Inr Let_def roi_formula_def
  by (simp add: bind_err_if)

lemma round_half_even_near: "\<bar>of_int (round_half_even q) - q\<bar> \<le> 1 / 2"
proof -
  define f where "f = \<lfloor>q\<rfloor>"
  have lo: "of_int f \<le> q" and hi: "q < of_int f + 1"
    unfolding f_def by linarith+
  have "round_half_even q = f \<and> q - of_int f \<le> 1 / 2
        \<or> round_half_even q = f + 1 \<and> 1 / 2 \<le> q - of_int f"
    unfolding round_half_even_def Let_def f_def [symmetric]
    by (cases "q - of_int f < 1 / 2"; cases "1 / 2 < q - of_int f"; cases "even f") simp_all
  then show ?thesis
    using lo hi by (auto simp: abs_le_iff)
qed

lemma is_rounded_py_round: "is_rounded n (py_round x n)"
  by (simp add: is_rounded_def py_round_def)

lemma py_round_near: "\<bar>py_round x n - x\<bar> \<le> 1 / (2 * 10 ^ n)"
proof -
  have pos: "(0::rat) < 10 ^ n" by simp
  have "\<bar>py_round x n - x\<bar> = \<bar>of_int (round_half_even (x * 10 ^ n)) - x * 10 ^ n\<bar> / 10 ^ n"
    by (simp add: py_round_def field_simps flip: abs_mult)
  also have "\<dots> \<le> (1 / 2) / 10 ^ n"
    by (rule divide_right_mono [OF round_half_even_near]) simp
  finally show ?thesis by simp
qed


lemma py_round_tiny: "- (1 / 200) < x \<Longrightarrow> x < 0 \<Longrightarrow> py_round x 2 = 0"
proof -
  assume a: "- (1 / 200) < x" and b: "x < 0"
  have fl: "\<lfloor>x * 100\<rfloor> = - 1"
    using a b by (simp add: floor_eq_iff)
  show ?thesis
    using a b by (simp add: py_round_def round_half_even_def fl Let_def)
qed

lemma append_alerts_map: "append_alerts mk cs alerts = alerts @ map mk cs"
  by (induction cs arbitrary: alerts) simp_all

lemma collect_alerts_eq:
  "collect_alerts kpi_data =
     map negative_roi_alert (filter (\<lambda>k. roi_percentage k < 0) kpi_data)
     @ map high_cpl_alert (filter (\<lambda>k. 100 < cost_per_lead k) kpi_data)
     @ map low_conversion_alert (filter (\<lambda>k. conversion_rate k < 5) kpi_data)"
  by (simp add: collect_alerts_def append_alerts_map)

lemma kpi_loop_acc:
  "kpi_loop t rs acc = Inr ks \<Longrightarrow>
     \<exists>ks'. ks = acc @ ks' \<and> length ks' = length rs
       \<and> (\<forall>i<length rs. kpi_of_row t (rs ! i) = Inr (ks' ! i))"
proof (induction rs arbitrary: acc ks)
  case Nil
  then show ?case by simp
next
  case (Cons r rs)
  from Cons.prems obtain k where k: "kpi_of_row t r = Inr k"
    and rest: "kpi_loop t rs (acc @ [k]) = Inr ks"
    by (auto split: sum.splits)
  from Cons.IH [OF rest] obtain ks' where ks': "ks = (acc @ [k]) @ ks'"
    "length ks' = length rs" "\<forall>i<length rs. kpi_of_row t (rs ! i) = Inr (ks' ! i)"
    by blast
  have "\<forall>i<length (r # rs). kpi_of_row t ((r # rs) ! i) = Inr ((k # ks') ! i)"
    using k ks'(3) by (auto simp: nth_Cons split: nat.splits)
  with ks' show ?case by (intro exI [of _ "k # ks'"]) simp
qed

lemma kpi_loop_total:
  "\<exists>ks. kpi_loop t (map row_of cs) acc = Inr ks"
  by (induction cs arbitrary: acc) (simp_all add: kpi_of_row_campaign)

lemma kpi_of_row_campaign_id:
  "kpi_of_row t (row_of c) = Inr k \<Longrightarrow> campaign_id k = campaign_id c"
  by (auto simp: kpi_of_row_campaign)

lemma kpi_of_row_campaign_cpl:
  "kpi_of_row t (row_of c) = Inr k \<Longrightarrow>
     cost_per_lead k =
       py_round (if 0 < leads_generated c then total_spend c / leads_generated c else 0) 2"
  by (auto simp: kpi_of_row_campaign)

lemma kpi_of_row_campaign_conv:
  "kpi_of_row t (row_of c) = Inr k \<Longrightarrow>
     conversion_rate k =
       py_round (if 0 < leads_generated c
                 then conversions c / leads_generated c * 100 else 0) 2"
  by (auto simp: kpi_of_row_campaign)

lemma refresh_campaign_data_other:
  "key \<noteq> ''campaign_data'' \<Longrightarrow>
     refresh_status (snd (refresh_campaign_data e s)) key = refresh_status s key"
  by (simp add: refresh_campaign_data_def connect_database_def record_error_def
      record_success_def split: sum.splits option.splits)

lemma refresh_campaign_data_down:
  "\<not> create_engine_ok e \<Longrightarrow> refresh_campaign_data e s = (False, s)"
  by (simp add: refresh_campaign_data_def connect_database_def)

lemma refresh_campaign_data_stamp:
  "create_engine_ok e \<Longrightarrow>
     map_option timestamp (refresh_status (snd (refresh_campaign_data e s)) ''campaign_data'')
       = Some (now e)"
  by (simp add: refresh_campaign_data_def connect_database_def record_error_def
      record_success_def split: sum.splits option.splits)

lemma refresh_campaign_data_engine:
  "engine (snd (refresh_campaign_data e s)) = (engine s \<or> create_engine_ok e)"
  by (simp add: refresh_campaign_data_def connect_database_def record_error_def
      record_success_def split: sum.splits option.splits)

lemma refresh_campaign_data_success:
  "fst (refresh_campaign_data e s) \<Longrightarrow>
     map_option status (refresh_status (snd (refresh_campaign_data e s)) ''campaign_data'')
       = Some ''success''"
  by (simp add: refresh_campaign_data_def connect_database_def record_error_def
      record_success_def split: sum.splits option.splits if_splits)

lemma refresh_budget_data_other:
  "key \<noteq> ''budget_data'' \<Longrightarrow>
     refresh_status (snd (refresh_budget_data e s)) key = refresh_status s key"
  by (simp add: refresh_budget_data_def connect_database_def record_error_def
      record_success_def split: sum.splits option.splits)

lemma refresh_budget_data_down:
  "\<not> engine s \<Longrightarrow> \<not> create_engine_ok e \<Longrightarrow> refresh_budget_data e s = (False, s)"
  by (simp add: refresh_budget_data_def connect_database_def)

lemma refresh_budget_data_stamp:
  "engine s \<or> create_engine_ok e \<Longrightarrow>
     map_option timestamp (refresh_status (snd (refresh_budget_data e s)) ''budget_data'')
       = Some (now e)"
  by (auto simp: refresh_budget_data_def connect_database_def record_error_def
      record_success_def split: sum.splits option.splits)

lemma refresh_budget_data_success:
  "fst (refresh_budget_data e s) \<Longrightarrow>
     \<exists>n. refresh_status (snd (refresh_budget_data e s)) ''budget_data''
       = Some \<lparr>status = ''success'', timestamp = now e, detail = Records n\<rparr>"
  by (auto simp: refresh_budget_data_def connect_database_def record_error_def
      record_success_def split: sum.splits option.splits if_splits)

lemma calculate_kpis_other:
  "key \<noteq> ''kpi_calculation'' \<Longrightarrow>
     refresh_status (snd (calculate_kpis e s)) key = refresh_status s key"
  by (simp add: calculate_kpis_def record_error_def record_success_def
      split: sum.splits option.splits)

lemma calculate_kpis_stamp:
  "map_option timestamp (refresh_status (snd (calculate_kpis e s)) ''kpi_calculation'')
     = Some (now e)"
  by (simp add: calculate_kpis_def record_error_def record_success_def
      split: sum.splits option.splits)

lemma calculate_kpis_status:
  "map_option status (refresh_status (snd (calculate_kpis e s)) ''kpi_calculation'')
     = Some (if fst (calculate_kpis e s) then ''success'' else ''error'')"
  by (simp add: calculate_kpis_def record_error_def record_success_def
      split: sum.splits option.splits)

lemma generate_alerts_other:
  "key \<noteq> ''alerts'' \<Longrightarrow>
     refresh_status (snd (generate_alerts e s)) key = refresh_status s key"
  by (simp add: generate_alerts_def send_alert_email_def record_error_def record_success_def
      Let_def split: sum.splits option.splits)

lemma generate_alerts_stamp:
  "map_option timestamp (refresh_status (snd (generate_alerts e s)) ''alerts'') = Some (now e)"
  by (simp add: generate_alerts_def send_alert_email_def record_error_def record_success_def
      Let_def split: sum.splits option.splits)

lemma generate_alerts_status:
  "map_option status (refresh_status (snd (generate_alerts e s)) ''alerts'')
     = Some (if fst (generate_alerts e s) then ''success'' else ''error'')"
  by (simp add: generate_alerts_def send_alert_email_def record_error_def record_success_def
      Let_def split: sum.splits option.splits)

lemma save_refresh_status_status:
  "refresh_status (save_refresh_status e s) = refresh_status s"
  by (simp add: save_refresh_status_def split: option.splits)

lemma save_refresh_status_file:
  "fs_write e Logs_dir = None \<Longrightarrow> fs_write e (Status_json (day (now e))) = None \<Longrightarrow>
     status_files (save_refresh_status e s) (day (now e)) = Some (refresh_status s)"
  by (simp add: save_refresh_status_def)

lemma full_refresh_snd:
  "snd (full_refresh e s) =
     save_refresh_status e
       (snd (generate_alerts e
         (snd (calculate_kpis e
           (snd (refresh_budget_data e
             (snd (refresh_campaign_data e s))))))))"
  by (simp add: full_refresh_def Let_def split: prod.splits)

lemma full_refresh_fst:
  "fst (full_refresh e s) =
     (fst (refresh_campaign_data e s)
      \<and> fst (refresh_budget_data e (snd (refresh_campaign_data e s)))
      \<and> fst (calculate_kpis e (snd (refresh_budget_data e (snd (refresh_campaign_data e s)))))
      \<and> fst (generate_alerts e
              (snd (calculate_kpis e
                (snd (refresh_budget_data e (snd (refresh_campaign_data e s))))))))"
  by (auto simp: full_refresh_def count_if_def Let_def split: prod.splits)

lemma full_refresh_status:
  "refresh_status (snd (full_refresh e s)) key =
     refresh_status
       (snd (generate_alerts e
         (snd (calculate_kpis e
           (snd (refresh_budget_data e
             (snd (refresh_campaign_data e s)))))))) key"
  by (simp add: full_refresh_snd save_refresh_status_status)

lemma full_refresh_campaign_entry:
  "refresh_status (snd (full_refresh e s)) ''campaign_data'' =
     refresh_status (snd (refresh_campaign_data e s)) ''campaign_data''"
  by (simp add: full_refresh_status generate_alerts_other calculate_kpis_other
      refresh_budget_data_other)

lemma full_refresh_budget_entry:
  "refresh_status (snd (full_refresh e s)) ''budget_data'' =
     refresh_status (snd (refresh_budget_data e (snd (refresh_campaign_data e s))))
       ''budget_data''"
  by (simp add: full_refresh_status generate_alerts_other calculate_kpis_other)

lemma full_refresh_kpi_entry:
  "refresh_status (snd (full_refresh e s)) ''kpi_calculation'' =
     refresh_status
       (snd (calculate_kpis e (snd (refresh_budget_data e (snd (refresh_campaign_data e s))))))
       ''kpi_calculation''"
  by (simp add: full_refresh_status generate_alerts_other)

lemma full_refresh_other_entry:
  "key \<noteq> ''campaign_data'' \<Longrightarrow> key \<noteq> ''budget_data'' \<Longrightarrow> key \<noteq> ''kpi_calculation'' \<Longrightarrow>
   key \<noteq> ''alerts'' \<Longrightarrow>
     refresh_status (snd (full_refresh e s)) key = refresh_status s key"
  by (simp add: full_refresh_status generate_alerts_other calculate_kpis_other
      refresh_budget_data_other refresh_campaign_data_other)

lemma full_refresh_file:
  "fs_write e Logs_dir = None \<Longrightarrow> fs_write e (Status_json (day (now e))) = None \<Longrightarrow>
     exported e (snd (full_refresh e s)) key = refresh_status (snd (full_refresh e s)) key"
  by (simp add: exported_def full_refresh_snd save_refresh_status_file
      save_refresh_status_status)

subsection \<open>The KPI calculator\<close>




text \<open>
  Claim C6, as stated: the score is the clamp of the stored \<^verbatim>\<open>roi_percentage\<close>
  divided by 30. The source divides the unrounded ROI instead: with spend 3 and revenue 4
  the score is 10/9, while the stored field 33.33 gives 1.111.
\<close>

theorem C6_counterexample:
  "map_sum id profitability_score (kpi_of_row 0 (row_of camp_third)) = Inr (10 / 9)
   \<and> map_sum id spec_profitability_score (kpi_of_row 0 (row_of camp_third)) = Inr (1111 / 1000)"
  by code_simp

text \<open>
  Claim C6, amended: for every campaign record the score is the ROI before rounding,
  divided by 30 and clamped to the interval from 0 to 10; so it lies between 0 and 10.
  The stored \<^verbatim>\<open>roi_percentage\<close> differs from that ROI by at most 0.005.
\<close>

theorem C6_profitability_score:
  "\<exists>k. kpi_of_row t (row_of c) = Inr k
     \<and> profitability_score k = min 10 (max 0 (roi_formula c / 30))
     \<and> 0 \<le> profitability_score k \<and> profitability_score k \<le> 10
     \<and> \<bar>roi_percentage k - roi_formula c\<bar> \<le> 1 / 200"
  using py_round_near [of "roi_formula c" 2] by (simp add: kpi_of_row_campaign)

text \<open>
  Claim C8: the calculator yields one KPI record per campaign record, in the order of the
  input. On campaign records the loop always returns; on arbitrary rows, whenever it
  returns, the output has the length of the input and its i-th record is the one computed
  from the i-th row.
\<close>

theorem C8_one_kpi_per_campaign:
  "(\<exists>ks. kpi_loop t (map row_of cs) [] = Inr ks)
   \<and> (kpi_loop t rows [] = Inr kpi_data \<longrightarrow>
        length kpi_data = length rows
        \<and> (\<forall>i<length rows. kpi_of_row t (rows ! i) = Inr (kpi_data ! i)))"
  using kpi_loop_total [of t cs "[]"] kpi_loop_acc [of t rows "[]" kpi_data] by auto

theorem C8_one_kpi_per_campaign_witness:
  "kpi_loop 0 (map row_of [camp_third, camp_zero]) [] \<noteq> Inl TypeError
   \<and> map_sum id length (kpi_loop 0 (map row_of [camp_third, camp_zero]) []) = Inr 2
   \<and> map_sum id (map campaign_id) (kpi_loop 0 (map row_of [camp_third, camp_zero]) [])
       = Inr [Num 1, Num 2]"
proof -
  let ?rows = "map row_of [camp_third, camp_zero]"
  from C8_one_kpi_per_campaign [of 0 "[camp_third, camp_zero]" ?rows]
  obtain ks where ks: "kpi_loop 0 ?rows [] = Inr ks"
    by blast
  from C8_one_kpi_per_campaign [of 0 "[camp_third, camp_zero]" ?rows ks] ks
  have len: "length ks = 2"
    and nth: "\<forall>i<2. kpi_of_row 0 (?rows ! i) = Inr (ks ! i)"
    by simp_all
  have "(0::nat) < 2" and "Suc 0 < 2"
    by simp_all
  with nth have "kpi_of_row 0 (?rows ! 0) = Inr (ks ! 0)"
    and "kpi_of_row 0 (?rows ! Suc 0) = Inr (ks ! Suc 0)"
    by blast+
  then have k0: "kpi_of_row 0 (row_of camp_third) = Inr (ks ! 0)"
    and k1: "kpi_of_row 0 (row_of camp_zero) = Inr (ks ! Suc 0)"
    by simp_all
  have ids: "campaign_id (ks ! 0) = Num 1" "campaign_id (ks ! Suc 0) = Num 2"
    using kpi_of_row_campaign_id [OF k0] kpi_of_row_campaign_id [OF k1]
    by (simp_all add: camp_third_def camp_zero_def)
  from len have ab: "ks = [ks ! 0, ks ! Suc 0]"
    by (auto simp: numeral_2_eq_2 length_Suc_conv)
  have "map campaign_id ks = [Num 1, Num 2]"
    by (subst ab) (simp add: ids)
  with len ks show ?thesis by simp
qed

text \<open>
  Claim C9, as stated: the profitability score is rounded to 2 decimal places like the
  other ratio fields. The source does not round it: with spend 3 and revenue 4 the score
  is 10/9.
\<close>

theorem C9_counterexample:
  "map_sum id profitability_score (kpi_of_row 0 (row_of camp_third)) = Inr (10 / 9)
   \<and> \<not> is_rounded 2 (10 / 9)"
  by code_simp

text \<open>
  Claim C9, amended: \<^verbatim>\<open>roi_percentage\<close>, \<^verbatim>\<open>cost_per_lead\<close>,
  \<^verbatim>\<open>cost_per_acquisition\<close> and \<^verbatim>\<open>conversion_rate\<close> have at most 2 decimal places
  and lie within 0.005 of their formulas; \<^verbatim>\<open>click_through_rate\<close> has at most 4 and
  lies within 0.00005 of its formula; \<^verbatim>\<open>profitability_score\<close> is not rounded.
\<close>

theorem C9_rounding:
  "\<exists>k. kpi_of_row t (row_of c) = Inr k
     \<and> is_rounded 2 (roi_percentage k)
     \<and> is_rounded 2 (cost_per_lead k)
     \<and> is_rounded 2 (cost_per_acquisition k)
     \<and> is_rounded 2 (conversion_rate k)
     \<and> is_rounded 4 (click_through_rate k)
     \<and> \<bar>roi_percentage k - roi_formula c\<bar> \<le> 1 / 200
     \<and> \<bar>cost_per_lead k
          - (if 0 < leads_generated c then total_spend c / leads_generated c else 0)\<bar>
         \<le> 1 / 200
     \<and> \<bar>cost_per_acquisition k
          - (if 0 < conversions c then total_spend c / conversions c else 0)\<bar>
         \<le> 1 / 200
     \<and> \<bar>conversion_rate k
          - (if 0 < leads_generated c then conversions c / leads_generated c * 100 else 0)\<bar>
         \<le> 1 / 200
     \<and> \<bar>click_through_rate k
          - (if 0 < impressions c then clicks c / impressions c * 100 else 0)\<bar>
         \<le> 1 / 20000
     \<and> profitability_score k = min 10 (max 0 (roi_formula c / 30))"
proof -
  have n2: "\<bar>py_round x 2 - x\<bar> \<le> 1 / 200" for x
    using py_round_near [of x 2] by simp
  have n4: "\<bar>py_round x 4 - x\<bar> \<le> 1 / 20000" for x
    using py_round_near [of x 4] by simp
  show ?thesis
    unfolding kpi_of_row_campaign
    by (simp only: sum.inject simp_thms ex_simps kpi.simps select_convs is_rounded_py_round n2 n4)
qed

subsection \<open>The alert evaluator\<close>

text \<open>
  Claim C10: the rules read the stored, rounded fields. A campaign whose ROI before
  rounding lies strictly between -0.005 and 0 is stored with \<^verbatim>\<open>roi_percentage\<close> 0, and
  the evaluator emits no Negative-ROI alert and no Critical alert for it. Such a campaign
  exists: spend 100000 and revenue 99996 give an ROI of -0.004.
\<close>

theorem C10_rounded_roi_hides_small_loss:
  "- (1 / 200) < roi_formula c \<and> roi_formula c < 0 \<longrightarrow>
     (\<exists>k. kpi_loop t [row_of c] [] = Inr [k]
        \<and> roi_percentage k = 0
        \<and> filter (\<lambda>a. issue a = ''Negative ROI'') (collect_alerts [k]) = []
        \<and> filter (\<lambda>a. alert_type a = ''Critical'') (collect_alerts [k]) = [])"
  by (simp add: kpi_of_row_campaign py_round_tiny collect_alerts_eq
      high_cpl_alert_def low_conversion_alert_def)

theorem C10_rounded_roi_hides_small_loss_witness:
  "roi_formula camp_tiny_loss = - (1 / 250)
   \<and> map_sum id (map roi_percentage) (kpi_loop 0 [row_of camp_tiny_loss] []) = Inr [0]
   \<and> map_sum id (map issue \<circ> collect_alerts) (kpi_loop 0 [row_of camp_tiny_loss] []) = Inr []"
proof -
  have r: "roi_formula camp_tiny_loss = - (1 / 250)"
    by (simp add: roi_formula_def camp_tiny_loss_def)
  from C10_rounded_roi_hides_small_loss [of camp_tiny_loss 0] r
  obtain k where k: "kpi_loop 0 [row_of camp_tiny_loss] [] = Inr [k]" "roi_percentage k = 0"
    by auto
  from k(1) have kk: "kpi_of_row 0 (row_of camp_tiny_loss) = Inr k"
    by (simp split: sum.splits)
  have p1: "py_round (100000 / 2000) 2 = 50" and p2: "py_round (200 / 2000 * 100) 2 = 10"
    by code_simp+
  have "cost_per_lead k = py_round (100000 / 2000) 2"
    unfolding kpi_of_row_campaign_cpl [OF kk] by (simp add: camp_tiny_loss_def)
  moreover have "conversion_rate k = py_round (200 / 2000 * 100) 2"
    unfolding kpi_of_row_campaign_conv [OF kk] by (simp add: camp_tiny_loss_def)
  ultimately have "cost_per_lead k = 50" "conversion_rate k = 10"
    by (simp_all only: p1 p2)
  with k r show ?thesis
    by (simp add: collect_alerts_eq)
qed

text \<open>
  Claim C2: the evaluator's output is the Negative-ROI alerts of the records with
  \<^verbatim>\<open>roi_percentage\<close> below 0, then the High-Cost-Per-Lead alerts of the records with
  \<^verbatim>\<open>cost_per_lead\<close> above 100, then the Low-Conversion-Rate alerts of the records with
  \<^verbatim>\<open>conversion_rate\<close> below 5, each group in input order, with the stated type,
  issue, priority and action. A record with ROI -10, cost per lead 150 and conversion rate
  3 yields exactly three alerts, one per rule.
\<close>

theorem C2_alert_rules:
  "collect_alerts kpi_data =
     map negative_roi_alert (filter (\<lambda>k. roi_percentage k < 0) kpi_data)
     @ map high_cpl_alert (filter (\<lambda>k. 100 < cost_per_lead k) kpi_data)
     @ map low_conversion_alert (filter (\<lambda>k. conversion_rate k < 5) kpi_data)
   \<and> alert_type (negative_roi_alert k) = ''Critical''
   \<and> issue (negative_roi_alert k) = ''Negative ROI''
   \<and> priority (negative_roi_alert k) = ''High''
   \<and> recommended_action (negative_roi_alert k) = ''Pause campaign and review targeting''
   \<and> alert_type (high_cpl_alert k) = ''Warning''
   \<and> issue (high_cpl_alert k) = ''High Cost Per Lead''
   \<and> priority (high_cpl_alert k) = ''Medium''
   \<and> alert_type (low_conversion_alert k) = ''Warning''
   \<and> issue (low_conversion_alert k) = ''Low Conversion Rate''
   \<and> priority (low_conversion_alert k) = ''Medium''
   \<and> (roi_percentage k = - 10 \<and> cost_per_lead k = 150 \<and> conversion_rate k = 3 \<longrightarrow>
        collect_alerts [k] = [negative_roi_alert k, high_cpl_alert k, low_conversion_alert k])"
  by (simp add: collect_alerts_eq negative_roi_alert_def high_cpl_alert_def
      low_conversion_alert_def)

theorem C2_alert_rules_witness:
  "roi_percentage kpi_three_rules = - 10 \<and> cost_per_lead kpi_three_rules = 150
   \<and> conversion_rate kpi_three_rules = 3
   \<and> length (collect_alerts [kpi_three_rules]) = 3
   \<and> map issue (collect_alerts [kpi_three_rules])
       = [''Negative ROI'', ''High Cost Per Lead'', ''Low Conversion Rate'']"
proof -
  have h: "roi_percentage kpi_three_rules = - 10" "cost_per_lead kpi_three_rules = 150"
    "conversion_rate kpi_three_rules = 3"
    by (simp_all add: kpi_three_rules_def)
  from C2_alert_rules [of "[kpi_three_rules]" kpi_three_rules] h
  have "collect_alerts [kpi_three_rules] =
      [negative_roi_alert kpi_three_rules, high_cpl_alert kpi_three_rules,
       low_conversion_alert kpi_three_rules]"
    and "issue (negative_roi_alert kpi_three_rules) = ''Negative ROI''"
    and "issue (high_cpl_alert kpi_three_rules) = ''High Cost Per Lead''"
    and "issue (low_conversion_alert kpi_three_rules) = ''Low Conversion Rate''"
    by blast+
  with h show ?thesis by simp
qed


subsection \<open>The orchestrator\<close>

text \<open>
  Claim C3, as stated: the status map is emptied at the start of every run, so no entry of
  an earlier run is exported by a later one. \<^verbatim>\<open>full_refresh\<close> never empties the map.
  After a first run in which everything works and a second one in which the engine cannot
  be created, the status file written by the second run holds the campaign entry of the
  first.
\<close>

theorem C3_counterexample:
  "exported env_down
     (snd (full_refresh env_down (snd (full_refresh env_up (init no_files))))) ''campaign_data''
     = Some \<lparr>status = ''success'', timestamp = now env_up, detail = Records 1\<rparr>
   \<and> now env_up \<noteq> now env_down"
  by code_simp

text \<open>
  Claim C3, amended: the status map is empty after construction and is never emptied by a
  run. A run stamps the entries of the KPI and alert stages always, the campaign entry when
  the engine can be created, and the budget entry when an engine exists or can be created;
  otherwise the campaign or budget entry stays as it was before the run, and so does every
  entry under another key. When the status file can be written it holds the map as it is
  at the end of the run.
\<close>

theorem C3_status_entries:
  "refresh_status (init fs) = Map.empty
   \<and> map_option timestamp (refresh_status (snd (full_refresh e s)) ''kpi_calculation'')
       = Some (now e)
   \<and> map_option timestamp (refresh_status (snd (full_refresh e s)) ''alerts'') = Some (now e)
   \<and> (create_engine_ok e \<longrightarrow>
        map_option timestamp (refresh_status (snd (full_refresh e s)) ''campaign_data'')
          = Some (now e))
   \<and> (engine s \<or> create_engine_ok e \<longrightarrow>
        map_option timestamp (refresh_status (snd (full_refresh e s)) ''budget_data'')
          = Some (now e))
   \<and> (\<not> create_engine_ok e \<longrightarrow>
        refresh_status (snd (full_refresh e s)) ''campaign_data''
          = refresh_status s ''campaign_data'')
   \<and> (\<not> engine s \<and> \<not> create_engine_ok e \<longrightarrow>
        refresh_status (snd (full_refresh e s)) ''budget_data''
          = refresh_status s ''budget_data'')
   \<and> (key \<noteq> ''campaign_data'' \<and> key \<noteq> ''budget_data'' \<and> key \<noteq> ''kpi_calculation''
        \<and> key \<noteq> ''alerts'' \<longrightarrow>
        refresh_status (snd (full_refresh e s)) key = refresh_status s key)
   \<and> (fs_write e Logs_dir = None \<and> fs_write e (Status_json (day (now e))) = None \<longrightarrow>
        exported e (snd (full_refresh e s)) key = refresh_status (snd (full_refresh e s)) key)"
proof -
  have "refresh_status (init fs) = Map.empty"
    by (simp add: init_def)
  moreover have "map_option timestamp
      (refresh_status (snd (full_refresh e s)) ''kpi_calculation'') = Some (now e)"
    by (simp add: full_refresh_kpi_entry calculate_kpis_stamp)
  moreover have "map_option timestamp
      (refresh_status (snd (full_refresh e s)) ''alerts'') = Some (now e)"
    by (simp add: full_refresh_status generate_alerts_stamp)
  moreover have "map_option timestamp
      (refresh_status (snd (full_refresh e s)) ''campaign_data'') = Some (now e)"
    if "create_engine_ok e"
    using that by (simp add: full_refresh_campaign_entry refresh_campaign_data_stamp)
  moreover have "map_option timestamp
      (refresh_status (snd (full_refresh e s)) ''budget_data'') = Some (now e)"
    if "engine s \<or> create_engine_ok e"
    using that
    by (simp add: full_refresh_budget_entry refresh_budget_data_stamp
        refresh_campaign_data_engine)
  moreover have "refresh_status (snd (full_refresh e s)) ''campaign_data''
      = refresh_status s ''campaign_data''"
    if "\<not> create_engine_ok e"
    using that by (simp add: full_refresh_campaign_entry refresh_campaign_data_down)
  moreover have "refresh_status (snd (full_refresh e s)) ''budget_data''
      = refresh_status s ''budget_data''"
    if "\<not> engine s \<and> \<not> create_engine_ok e"
    using that
    by (simp add: full_refresh_budget_entry refresh_campaign_data_down
        refresh_budget_data_down)
  moreover note full_refresh_other_entry [of key e s] full_refresh_file [of e s key]
  ultimately show ?thesis by blast
qed

theorem C3_status_entries_witness:
  "create_engine_ok env_up \<and> \<not> create_engine_ok env_down
   \<and> fs_write env_up Logs_dir = None
   \<and> fs_write env_up (Status_json (day (now env_up))) = None
   \<and> map_option timestamp
        (exported env_up (snd (full_refresh env_up (init no_files))) ''campaign_data'')
       = Some (now env_up)
   \<and> map_option timestamp
        (exported env_up (snd (full_refresh env_up (init no_files))) ''budget_data'')
       = Some (now env_up)
   \<and> refresh_status (snd (full_refresh env_up (init no_files))) ''scheduler'' = None
   \<and> refresh_status (snd (full_refresh env_down (init no_files))) ''campaign_data'' = None
   \<and> refresh_status (snd (full_refresh env_down (init no_files))) ''budget_data'' = None"
proof -
  have up: "create_engine_ok env_up" "fs_write env_up Logs_dir = None"
    "fs_write env_up (Status_json (day (now env_up))) = None"
    by (simp_all add: env_up_def)
  have down: "\<not> create_engine_ok env_down" "\<not> engine (init no_files)"
    by (simp_all add: env_down_def env_up_def init_def)
  have empty: "refresh_status (init no_files) = Map.empty"
    using C3_status_entries [of no_files env_up "init no_files" "''scheduler''"] by blast
  have k: "''scheduler'' \<noteq> ''campaign_data''" "''scheduler'' \<noteq> ''budget_data''"
    "''scheduler'' \<noteq> ''kpi_calculation''" "''scheduler'' \<noteq> ''alerts''"
    by simp_all
  show ?thesis
    using C3_status_entries [of no_files env_up "init no_files" "''campaign_data''"]
      C3_status_entries [of no_files env_up "init no_files" "''budget_data''"]
      C3_status_entries [of no_files env_up "init no_files" "''scheduler''"]
      C3_status_entries [of no_files env_down "init no_files" "''campaign_data''"]
      up down k
    by (simp add: empty)
qed

text \<open>
  Claim C4: \<^verbatim>\<open>full_refresh\<close> returns True exactly when each of the four stage
  operations, run in order on the state left by the one before, returns True; and when it
  returns True, the status map holds a success entry for each of the four stages.
\<close>

theorem C4_full_refresh_result:
  "fst (full_refresh e s) =
     (let r1 = refresh_campaign_data e s;
          r2 = refresh_budget_data e (snd r1);
          r3 = calculate_kpis e (snd r2);
          r4 = generate_alerts e (snd r3)
      in fst r1 \<and> fst r2 \<and> fst r3 \<and> fst r4)
   \<and> (fst (full_refresh e s) \<longrightarrow>
        map_option status (refresh_status (snd (full_refresh e s)) ''campaign_data'')
          = Some ''success''
        \<and> map_option status (refresh_status (snd (full_refresh e s)) ''budget_data'')
          = Some ''success''
        \<and> map_option status (refresh_status (snd (full_refresh e s)) ''kpi_calculation'')
          = Some ''success''
        \<and> map_option status (refresh_status (snd (full_refresh e s)) ''alerts'')
          = Some ''success'')"
proof -
  define s1 where "s1 = snd (refresh_campaign_data e s)"
  define s2 where "s2 = snd (refresh_budget_data e s1)"
  define s3 where "s3 = snd (calculate_kpis e s2)"
  note defs = s1_def s2_def s3_def
  have res: "fst (full_refresh e s) =
      (fst (refresh_campaign_data e s) \<and> fst (refresh_budget_data e s1)
       \<and> fst (calculate_kpis e s2) \<and> fst (generate_alerts e s3))"
    by (simp add: defs full_refresh_fst)
  have c: "map_option status (refresh_status (snd (full_refresh e s)) ''campaign_data'')
      = Some ''success''" if "fst (refresh_campaign_data e s)"
    using refresh_campaign_data_success [OF that] by (simp add: full_refresh_campaign_entry)
  have b: "map_option status (refresh_status (snd (full_refresh e s)) ''budget_data'')
      = Some ''success''" if "fst (refresh_budget_data e s1)"
    using refresh_budget_data_success [OF that] by (auto simp: full_refresh_budget_entry s1_def)
  have k: "map_option status (refresh_status (snd (full_refresh e s)) ''kpi_calculation'')
      = Some ''success''" if "fst (calculate_kpis e s2)"
    using that calculate_kpis_status [of e s2] by (simp add: full_refresh_kpi_entry defs)
  have a: "map_option status (refresh_status (snd (full_refresh e s)) ''alerts'')
      = Some ''success''" if "fst (generate_alerts e s3)"
    using that generate_alerts_status [of e s3] by (simp add: full_refresh_status defs)
  from res c b k a show ?thesis
    unfolding Let_def defs [symmetric] by blast
qed

theorem C4_full_refresh_result_witness:
  "fst (full_refresh env_up (init no_files))
   \<and> map_option status
        (refresh_status (snd (full_refresh env_up (init no_files))) ''campaign_data'')
       = Some ''success''
   \<and> map_option status
        (refresh_status (snd (full_refresh env_up (init no_files))) ''alerts'')
       = Some ''success''
   \<and> \<not> fst (full_refresh env_down (init no_files))"
proof -
  have ok: "fst (full_refresh env_up (init no_files))"
    by code_simp
  have "\<not> fst (refresh_campaign_data env_down (init no_files))"
    by code_simp
  then have "\<not> fst (full_refresh env_down (init no_files))"
    using C4_full_refresh_result [of env_down "init no_files"] unfolding Let_def by blast
  with ok C4_full_refresh_result [of env_up "init no_files"] show ?thesis
    by blast
qed

text \<open>
  Claim C5: every stage runs on the state left by the previous one, whatever that one
  returned: the KPI and alert entries are always stamped by the run, and the budget entry
  whenever an engine exists or can be created. No later stage changes the entry of an
  earlier one. In particular, when the budget stage succeeds and the KPI stage fails, the
  final map holds the budget stage's success entry and the KPI stage's error entry, and the
  status file, when it can be written, holds that budget entry.
\<close>

theorem C5_stage_isolation:
  "(let s1 = snd (refresh_campaign_data e s);
        s2 = snd (refresh_budget_data e s1);
        s3 = snd (calculate_kpis e s2);
        s4 = snd (generate_alerts e s3);
        final = snd (full_refresh e s)
    in final = save_refresh_status e s4
       \<and> map_option timestamp (refresh_status final ''kpi_calculation'') = Some (now e)
       \<and> map_option timestamp (refresh_status final ''alerts'') = Some (now e)
       \<and> (engine s \<or> create_engine_ok e \<longrightarrow>
            map_option timestamp (refresh_status final ''budget_data'') = Some (now e))
       \<and> refresh_status final ''campaign_data'' = refresh_status s1 ''campaign_data''
       \<and> refresh_status final ''budget_data'' = refresh_status s2 ''budget_data''
       \<and> refresh_status final ''kpi_calculation'' = refresh_status s3 ''kpi_calculation''
       \<and> (fst (refresh_budget_data e s1) \<and> \<not> fst (calculate_kpis e s2) \<longrightarrow>
            (\<exists>n. refresh_status final ''budget_data''
                   = Some \<lparr>status = ''success'', timestamp = now e, detail = Records n\<rparr>)
            \<and> map_option status (refresh_status final ''kpi_calculation'') = Some ''error''
            \<and> (fs_write e Logs_dir = None \<and> fs_write e (Status_json (day (now e))) = None \<longrightarrow>
                 exported e final ''budget_data'' = refresh_status final ''budget_data'')))"
proof -
  define s1 where "s1 = snd (refresh_campaign_data e s)"
  define s2 where "s2 = snd (refresh_budget_data e s1)"
  define s3 where "s3 = snd (calculate_kpis e s2)"
  define s4 where "s4 = snd (generate_alerts e s3)"
  define final where "final = snd (full_refresh e s)"
  note defs = s1_def s2_def s3_def s4_def final_def
  have a: "final = save_refresh_status e s4"
    by (simp add: defs full_refresh_snd)
  have b: "map_option timestamp (refresh_status final ''kpi_calculation'') = Some (now e)"
    by (simp add: defs full_refresh_kpi_entry calculate_kpis_stamp)
  have c: "map_option timestamp (refresh_status final ''alerts'') = Some (now e)"
    by (simp add: defs full_refresh_status generate_alerts_stamp)
  have d: "map_option timestamp (refresh_status final ''budget_data'') = Some (now e)"
    if "engine s \<or> create_engine_ok e"
    using that
    by (simp add: defs full_refresh_budget_entry refresh_budget_data_stamp
        refresh_campaign_data_engine)
  have f: "refresh_status final ''campaign_data'' = refresh_status s1 ''campaign_data''"
    by (simp add: defs full_refresh_campaign_entry)
  have g: "refresh_status final ''budget_data'' = refresh_status s2 ''budget_data''"
    by (simp add: defs full_refresh_budget_entry)
  have h: "refresh_status final ''kpi_calculation'' = refresh_status s3 ''kpi_calculation''"
    by (simp add: defs full_refresh_kpi_entry)
  have i: "\<exists>n. refresh_status final ''budget_data''
      = Some \<lparr>status = ''success'', timestamp = now e, detail = Records n\<rparr>"
    if "fst (refresh_budget_data e s1)"
    using refresh_budget_data_success [OF that] by (simp add: g s2_def)
  have j: "map_option status (refresh_status final ''kpi_calculation'') = Some ''error''"
    if "\<not> fst (calculate_kpis e s2)"
    using that calculate_kpis_status [of e s2] by (simp add: h s3_def)
  have k: "exported e final ''budget_data'' = refresh_status final ''budget_data''"
    if "fs_write e Logs_dir = None \<and> fs_write e (Status_json (day (now e))) = None"
    using that by (simp add: final_def full_refresh_file)
  from a b c d f g h i j k show ?thesis
    unfolding Let_def defs [symmetric] by blast
qed

theorem C5_stage_isolation_witness:
  "fst (refresh_budget_data env_bad_rows
         (snd (refresh_campaign_data env_bad_rows (init no_files))))
   \<and> \<not> fst (calculate_kpis env_bad_rows
             (snd (refresh_budget_data env_bad_rows
               (snd (refresh_campaign_data env_bad_rows (init no_files))))))
   \<and> map_option status
        (exported env_bad_rows (snd (full_refresh env_bad_rows (init no_files))) ''budget_data'')
       = Some ''success''
   \<and> map_option status
        (refresh_status (snd (full_refresh env_bad_rows (init no_files))) ''kpi_calculation'')
       = Some ''error''"
proof -
  have ok: "fst (refresh_budget_data env_bad_rows
         (snd (refresh_campaign_data env_bad_rows (init no_files))))"
    by code_simp
  have bad: "\<not> fst (calculate_kpis env_bad_rows
             (snd (refresh_budget_data env_bad_rows
               (snd (refresh_campaign_data env_bad_rows (init no_files))))))"
    by code_simp
  have fs: "fs_write env_bad_rows Logs_dir = None"
    "fs_write env_bad_rows (Status_json (day (now env_bad_rows))) = None"
    "engine (init no_files) \<or> create_engine_ok env_bad_rows"
    by (simp_all add: env_bad_rows_def env_up_def)
  from C5_stage_isolation [of env_bad_rows "init no_files"] ok bad fs
  show ?thesis
    unfolding Let_def by auto
qed

end
